theory Spec2Isabelle
  imports Complex_Main
begin

section \<open>Hybrid forge client (scripts/progressive-capture/lib/hybrid-github-client.js)\<close>

text \<open>
  A thrown JavaScript error is a value. The capture scripts tell a missing pull request
  from every other failure by \<^verbatim>\<open>error.status === 404\<close>, so an error carries either
  an HTTP status or no status at all (a network failure, a time-out).
\<close>

datatype forge_error = HttpError nat | NetworkError

definition NotFound :: forge_error where
  "NotFound = HttpError 404"

text \<open>The \<^verbatim>\<open>rateLimit\<close> object of a response.\<close>

record rateLimit =
  cost :: int
  remaining :: int
  limit :: int

text \<open>
  \<^verbatim>\<open>this.metrics\<close> and the rest of the client object. \<^verbatim>\<open>console.warn\<close> and
  \<^verbatim>\<open>console.error\<close> append to \<open>console\<close>.
\<close>

record metrics =
  graphqlQueries :: nat
  restQueries :: nat
  fallbacks :: nat
  totalPointsSaved :: int

datatype console_line = Warn string | Error string

record HybridGitHubClient =
  useGraphQL :: bool
  metrics :: metrics
  console :: "console_line list"

definition new_HybridGitHubClient :: HybridGitHubClient where
  "new_HybridGitHubClient =
     \<lparr>useGraphQL = True,
      metrics = \<lparr>graphqlQueries = 0, restQueries = 0, fallbacks = 0, totalPointsSaved = 0\<rparr>,
      console = []\<rparr>"

text \<open>
  The payloads are JSON values of a type \<open>'j\<close> that the client never inspects outside
  the \<^verbatim>\<open>transform...\<close> functions. Those functions only rename fields, so each one is
  a parameter \<open>tf\<close> here; the \<^verbatim>\<open>rateLimit\<close> of the compound response is copied through
  unchanged, as in the source.
\<close>

record 'j graphql_result =
  data :: 'j
  result_rateLimit :: rateLimit

record 'j pr_payload =
  pullRequest :: 'j
  files :: 'j
  reviews :: 'j
  issueComments :: 'j
  reviewComments :: 'j

record 'j pr_complete_data =
  payload :: "'j pr_payload"
  rateLimit :: rateLimit

text \<open>The five answers of the fine-grained path, in the order of the \<^verbatim>\<open>Promise.all\<close>.\<close>

record 'j rest_responses =
  pulls_get :: "forge_error + 'j"
  pulls_listFiles :: "forge_error + 'j"
  pulls_listReviews :: "forge_error + 'j"
  issues_listComments :: "forge_error + 'j"
  pulls_listReviewComments :: "forge_error + 'j"
  pulls_list :: "forge_error + 'j"

definition calculatePointsSaved :: "int \<Rightarrow> int \<Rightarrow> int" where
  "calculatePointsSaved restCalls graphqlCost = max 0 (restCalls - graphqlCost)"

definition transformPRCompleteData ::
  "('j \<Rightarrow> 'j pr_payload) \<Rightarrow> 'j graphql_result \<Rightarrow> 'j pr_complete_data" where
  "transformPRCompleteData tf result =
     \<lparr>payload = tf (data result), rateLimit = result_rateLimit result\<rparr>"

text \<open>
  \<^verbatim>\<open>Promise.all\<close> over the five calls rejects as soon as one of them rejects; the
  model takes the first rejection in the order of the array. The \<^verbatim>\<open>catch\<close> logs and
  rethrows, and the counter is not touched on that branch.
\<close>

definition rest_failed ::
  "HybridGitHubClient \<Rightarrow> forge_error \<Rightarrow> (forge_error + 'a) \<times> HybridGitHubClient" where
  "rest_failed c e = (Inl e, c\<lparr>console := console c @ [Error ''REST API failed'']\<rparr>)"

definition getPRCompleteDataREST ::
  "HybridGitHubClient \<Rightarrow> 'j rest_responses \<Rightarrow> (forge_error + 'j pr_complete_data) \<times> HybridGitHubClient" where
  "getPRCompleteDataREST c rs =
     (case pulls_get rs of Inl e \<Rightarrow> rest_failed c e | Inr prData \<Rightarrow>
      case pulls_listFiles rs of Inl e \<Rightarrow> rest_failed c e | Inr fs \<Rightarrow>
      case pulls_listReviews rs of Inl e \<Rightarrow> rest_failed c e | Inr rvs \<Rightarrow>
      case issues_listComments rs of Inl e \<Rightarrow> rest_failed c e | Inr ics \<Rightarrow>
      case pulls_listReviewComments rs of Inl e \<Rightarrow> rest_failed c e | Inr rcs \<Rightarrow>
        (Inr \<lparr>payload = \<lparr>pullRequest = prData, files = fs, reviews = rvs,
                         issueComments = ics, reviewComments = rcs\<rparr>,
              rateLimit = \<lparr>cost = 5, remaining = 5000, limit = 5000\<rparr>\<rparr>,
         c\<lparr>metrics := (metrics c)\<lparr>restQueries := restQueries (metrics c) + 5\<rparr>\<rparr>))"

definition getPRCompleteData ::
  "('j \<Rightarrow> 'j pr_payload) \<Rightarrow> HybridGitHubClient \<Rightarrow> forge_error + 'j graphql_result \<Rightarrow>
   'j rest_responses \<Rightarrow> (forge_error + 'j pr_complete_data) \<times> HybridGitHubClient" where
  "getPRCompleteData tf c gq rs =
     (if useGraphQL c then
        (case gq of
           Inr result \<Rightarrow>
             (let c1 = c\<lparr>metrics := (metrics c)\<lparr>graphqlQueries := graphqlQueries (metrics c) + 1\<rparr>\<rparr>;
                  transformed = transformPRCompleteData tf result;
                  pointsSaved = calculatePointsSaved 5 (cost (result_rateLimit result));
                  c2 = c1\<lparr>metrics := (metrics c1)\<lparr>totalPointsSaved :=
                                         totalPointsSaved (metrics c1) + pointsSaved\<rparr>\<rparr>
              in (Inr transformed, c2))
         | Inl error \<Rightarrow>
             (let c1 = c\<lparr>console := console c @ [Warn ''GraphQL failed, falling back to REST'']\<rparr>;
                  c2 = c1\<lparr>metrics := (metrics c1)\<lparr>fallbacks := fallbacks (metrics c1) + 1\<rparr>\<rparr>
              in getPRCompleteDataREST c2 rs))
      else getPRCompleteDataREST c rs)"

text \<open>
  The three smaller operations have the same shape. Their fine-grained variants have no
  \<^verbatim>\<open>try\<close>: a rejection propagates as it is. Only the compound variants carry a
  \<^verbatim>\<open>rateLimit\<close>, hence the option.
\<close>

definition getPRReviewsREST ::
  "HybridGitHubClient \<Rightarrow> 'j rest_responses \<Rightarrow> (forge_error + 'j \<times> rateLimit option) \<times> HybridGitHubClient" where
  "getPRReviewsREST c rs =
     (case pulls_listReviews rs of
        Inl e \<Rightarrow> (Inl e, c)
      | Inr rvs \<Rightarrow>
          (Inr (rvs, None), c\<lparr>metrics := (metrics c)\<lparr>restQueries := restQueries (metrics c) + 1\<rparr>\<rparr>))"

definition getPRReviews ::
  "('j \<Rightarrow> 'j) \<Rightarrow> HybridGitHubClient \<Rightarrow> forge_error + 'j graphql_result \<Rightarrow>
   'j rest_responses \<Rightarrow> (forge_error + 'j \<times> rateLimit option) \<times> HybridGitHubClient" where
  "getPRReviews tf c gq rs =
     (if useGraphQL c then
        (case gq of
           Inr result \<Rightarrow>
             (let c1 = c\<lparr>metrics := (metrics c)\<lparr>graphqlQueries := graphqlQueries (metrics c) + 1\<rparr>\<rparr>
              in (Inr (tf (data result), Some (result_rateLimit result)), c1))
         | Inl error \<Rightarrow>
             (let c1 = c\<lparr>console := console c @ [Warn ''GraphQL reviews failed, falling back to REST'']\<rparr>;
                  c2 = c1\<lparr>metrics := (metrics c1)\<lparr>fallbacks := fallbacks (metrics c1) + 1\<rparr>\<rparr>
              in getPRReviewsREST c2 rs))
      else getPRReviewsREST c rs)"

definition getPRCommentsREST ::
  "HybridGitHubClient \<Rightarrow> 'j rest_responses \<Rightarrow>
   (forge_error + ('j \<times> 'j) \<times> rateLimit option) \<times> HybridGitHubClient" where
  "getPRCommentsREST c rs =
     (case issues_listComments rs of Inl e \<Rightarrow> (Inl e, c) | Inr ics \<Rightarrow>
      case pulls_listReviewComments rs of Inl e \<Rightarrow> (Inl e, c) | Inr rcs \<Rightarrow>
        (Inr ((ics, rcs), None),
         c\<lparr>metrics := (metrics c)\<lparr>restQueries := restQueries (metrics c) + 2\<rparr>\<rparr>))"

definition getPRComments ::
  "('j \<Rightarrow> 'j \<times> 'j) \<Rightarrow> HybridGitHubClient \<Rightarrow> forge_error + 'j graphql_result \<Rightarrow>
   'j rest_responses \<Rightarrow> (forge_error + ('j \<times> 'j) \<times> rateLimit option) \<times> HybridGitHubClient" where
  "getPRComments tf c gq rs =
     (if useGraphQL c then
        (case gq of
           Inr result \<Rightarrow>
             (let c1 = c\<lparr>metrics := (metrics c)\<lparr>graphqlQueries := graphqlQueries (metrics c) + 1\<rparr>\<rparr>
              in (Inr (tf (data result), Some (result_rateLimit result)), c1))
         | Inl error \<Rightarrow>
             (let c1 = c\<lparr>console := console c @ [Warn ''GraphQL comments failed, falling back to REST'']\<rparr>;
                  c2 = c1\<lparr>metrics := (metrics c1)\<lparr>fallbacks := fallbacks (metrics c1) + 1\<rparr>\<rparr>
              in getPRCommentsREST c2 rs))
      else getPRCommentsREST c rs)"

definition getRecentPRsREST ::
  "HybridGitHubClient \<Rightarrow> 'j rest_responses \<Rightarrow> (forge_error + 'j) \<times> HybridGitHubClient" where
  "getRecentPRsREST c rs =
     (case pulls_list rs of
        Inl e \<Rightarrow> (Inl e, c)
      | Inr prs \<Rightarrow>
          (Inr prs, c\<lparr>metrics := (metrics c)\<lparr>restQueries := restQueries (metrics c) + 1\<rparr>\<rparr>))"

definition getRecentPRs ::
  "('j \<Rightarrow> 'j) \<Rightarrow> HybridGitHubClient \<Rightarrow> forge_error + 'j graphql_result \<Rightarrow>
   'j rest_responses \<Rightarrow> (forge_error + 'j) \<times> HybridGitHubClient" where
  "getRecentPRs tf c gq rs =
     (if useGraphQL c then
        (case gq of
           Inr result \<Rightarrow>
             (let c1 = c\<lparr>metrics := (metrics c)\<lparr>graphqlQueries := graphqlQueries (metrics c) + 1\<rparr>\<rparr>
              in (Inr (tf (data result)), c1))
         | Inl error \<Rightarrow>
             (let c1 = c\<lparr>console := console c @ [Warn ''GraphQL recent PRs failed, falling back to REST'']\<rparr>;
                  c2 = c1\<lparr>metrics := (metrics c1)\<lparr>fallbacks := fallbacks (metrics c1) + 1\<rparr>\<rparr>
              in getRecentPRsREST c2 rs))
      else getRecentPRsREST c rs)"

text \<open>
  The client after the \<^verbatim>\<open>catch\<close> block of a compound query has warned and counted
  one fallback; used to state what every operation does with a failed compound query.
\<close>

definition fallen_back :: "string \<Rightarrow> HybridGitHubClient \<Rightarrow> HybridGitHubClient" where
  "fallen_back msg c =
     c\<lparr>console := console c @ [Warn msg],
       metrics := (metrics c)\<lparr>fallbacks := fallbacks (metrics c) + 1\<rparr>\<rparr>"

text \<open>Sample inputs: a forge that answers every fine-grained call.\<close>

definition rest_all_ok :: "nat rest_responses" where
  "rest_all_ok =
     \<lparr>pulls_get = Inr 1, pulls_listFiles = Inr 2, pulls_listReviews = Inr 3,
      issues_listComments = Inr 4, pulls_listReviewComments = Inr 5, pulls_list = Inr 6\<rparr>"

definition tf_payload :: "nat \<Rightarrow> nat pr_payload" where
  "tf_payload j = \<lparr>pullRequest = j, files = j, reviews = j, issueComments = j, reviewComments = j\<rparr>"

section \<open>Rollout controller (scripts/rollout, ops/scripts/rollout-manager.ts)\<close>

text \<open>
  The two tables of the store that the rollout scripts touch. There is one configuration
  row per feature name, so the table is a map from the feature name to its row; the
  history is a list in insertion order. Time stamps are natural numbers.
\<close>

record rollout_configuration =
  config_id :: nat
  feature_name :: string
  rollout_percentage :: int
  rollout_strategy :: string
  emergency_stop :: bool
  is_active :: bool
  updated_at :: nat

record rollout_history_entry =
  rollout_config_id :: nat
  action :: string
  previous_percentage :: int
  new_percentage :: int
  reason :: string
  triggered_by :: string
  metadata_timestamp :: nat
  metadata_script :: string

record store =
  rollout_configuration_table :: "string \<rightharpoonup> rollout_configuration"
  rollout_history_table :: "rollout_history_entry list"

text \<open>
  What a script run finds around it: whether \<^verbatim>\<open>SUPABASE_URL\<close> and
  \<^verbatim>\<open>SUPABASE_SERVICE_KEY\<close> are set, the clock, and for each store call of the run
  whether the store answers it with an error (\<^verbatim>\<open>{ error }\<close>). A call answered
  with an error changes nothing in the store.
\<close>

record run_env =
  credentials :: bool
  now :: nat
  fetch_error :: bool
  update_error :: bool
  insert_error :: bool

text \<open>
  \<^verbatim>\<open>.eq('feature_name', f).eq('is_active', true).single()\<close>: the row, or an error
  when no row matches. The script's update \<^verbatim>\<open>.eq('id', config.id)\<close> then writes the
  row it has fetched, the one stored under that feature name.
\<close>

definition select_active_single :: "store \<Rightarrow> string \<Rightarrow> rollout_configuration option" where
  "select_active_single s f =
     (case rollout_configuration_table s f of
        None \<Rightarrow> None
      | Some config \<Rightarrow> if is_active config then Some config else None)"

text \<open>
  \<^verbatim>\<open>set-rollout-percentage.js\<close>. The argument \<open>percentage\<close> is the value of
  \<^verbatim>\<open>parseInt(targetPercentage)\<close>, with \<open>None\<close> for \<^verbatim>\<open>NaN\<close>. The result is the
  exit code of the process and the store it leaves behind.
\<close>

definition feature :: string where
  "feature = ''hybrid_progressive_capture''"

text \<open>The object that the script inserts into \<^verbatim>\<open>rollout_history\<close>.\<close>

definition updated_entry ::
  "run_env \<Rightarrow> rollout_configuration \<Rightarrow> int \<Rightarrow> int \<Rightarrow> string \<Rightarrow> rollout_history_entry" where
  "updated_entry env config previousPercentage percentage rsn =
     \<lparr>rollout_config_id = config_id config,
      action = ''updated'',
      previous_percentage = previousPercentage,
      new_percentage = percentage,
      reason = rsn,
      triggered_by = ''manual'',
      metadata_timestamp = now env,
      metadata_script = ''set-rollout-percentage.js''\<rparr>"

definition setRolloutPercentage ::
  "run_env \<Rightarrow> int option \<Rightarrow> string \<Rightarrow> store \<Rightarrow> nat \<times> store" where
  "setRolloutPercentage env percentage rsn s =
     (if \<not> credentials env then (1, s)
      else case percentage of
        None \<Rightarrow> (1, s)
      | Some p \<Rightarrow>
          if p < 0 \<or> p > 100 then (1, s)
          else if fetch_error env then (1, s)
          else case select_active_single s feature of
            None \<Rightarrow> (1, s)
          | Some config \<Rightarrow>
              if emergency_stop config then (1, s)
              else
                let previousPercentage = rollout_percentage config in
                if update_error env then (1, s)
                else
                  let s1 = s\<lparr>rollout_configuration_table :=
                              (rollout_configuration_table s)(feature \<mapsto>
                                 config\<lparr>rollout_percentage := p, updated_at := now env\<rparr>)\<rparr>;
                      s2 = (if insert_error env then s1
                            else s1\<lparr>rollout_history_table := rollout_history_table s1 @
                                      [updated_entry env config previousPercentage p rsn]\<rparr>)
                  in (0, s2))"

text \<open>
  \<^verbatim>\<open>updateRolloutPercentage\<close> of the operator CLI (\<^verbatim>\<open>rollout-manager.ts\<close>): the
  returned row, \<open>None\<close> for \<^verbatim>\<open>null\<close>, and the store afterwards.
  \<^verbatim>\<open>.update(...).eq('feature_name', f).select().single()\<close> is an error when no row
  has that name.
\<close>

definition updateRolloutPercentage ::
  "run_env \<Rightarrow> string \<Rightarrow> int \<Rightarrow> store \<Rightarrow> rollout_configuration option \<times> store" where
  "updateRolloutPercentage env featureName newPercentage s =
     (if newPercentage < 0 \<or> newPercentage > 100 then (None, s)
      else if update_error env then (None, s)
      else case rollout_configuration_table s featureName of
        None \<Rightarrow> (None, s)
      | Some config \<Rightarrow>
          let row = config\<lparr>rollout_percentage := newPercentage, updated_at := now env\<rparr>
          in (Some row, s\<lparr>rollout_configuration_table :=
                            (rollout_configuration_table s)(featureName \<mapsto> row)\<rparr>))"

text \<open>\<^verbatim>\<open>emergencyStop\<close> and \<^verbatim>\<open>resumeRollout\<close> of the same CLI.\<close>

definition emergencyStop ::
  "run_env \<Rightarrow> string \<Rightarrow> store \<Rightarrow> rollout_configuration option \<times> store" where
  "emergencyStop env featureName s =
     (if update_error env then (None, s)
      else case rollout_configuration_table s featureName of
        None \<Rightarrow> (None, s)
      | Some config \<Rightarrow>
          let row = config\<lparr>emergency_stop := True, is_active := False, updated_at := now env\<rparr>
          in (Some row, s\<lparr>rollout_configuration_table :=
                            (rollout_configuration_table s)(featureName \<mapsto> row)\<rparr>))"

definition resumeRollout ::
  "run_env \<Rightarrow> string \<Rightarrow> store \<Rightarrow> rollout_configuration option \<times> store" where
  "resumeRollout env featureName s =
     (if update_error env then (None, s)
      else case rollout_configuration_table s featureName of
        None \<Rightarrow> (None, s)
      | Some config \<Rightarrow>
          let row = config\<lparr>emergency_stop := False, is_active := True, updated_at := now env\<rparr>
          in (Some row, s\<lparr>rollout_configuration_table :=
                            (rollout_configuration_table s)(featureName \<mapsto> row)\<rparr>))"

text \<open>
  The effective percentage of the feature as the health checker reads it
  (\<^verbatim>\<open>getCurrentRolloutPercentage\<close>): 0 without an active row or under emergency stop.
\<close>

definition getCurrentRolloutPercentage :: "run_env \<Rightarrow> store \<Rightarrow> int" where
  "getCurrentRolloutPercentage env s =
     (if \<not> credentials env then 0
      else if fetch_error env then 0
      else case select_active_single s feature of
        None \<Rightarrow> 0
      | Some config \<Rightarrow> if emergency_stop config then 0 else rollout_percentage config)"

text \<open>
  \<^verbatim>\<open>verify-rollback.js\<close>. The script reads \<^verbatim>\<open>EXPECTED_PERCENTAGE\<close> (an absent or
  empty variable counts as \<^verbatim>\<open>'0'\<close>), writes its report and exits with code 0. The
  store is part of what the run could read; the script has no store call.
\<close>

record verificationReport =
  report_timestamp :: nat
  expectedPercentage :: string
  actualPercentage :: string
  status :: string
  checks :: "string list"

definition verify_rollback :: "run_env \<Rightarrow> string option \<Rightarrow> store \<Rightarrow> verificationReport \<times> nat" where
  "verify_rollback env EXPECTED_PERCENTAGE s =
     (let expected = (case EXPECTED_PERCENTAGE of
                        None \<Rightarrow> ''0''
                      | Some v \<Rightarrow> if v = [] then ''0'' else v)
      in (\<lparr>report_timestamp = now env,
           expectedPercentage = expected,
           actualPercentage = expected,
           status = ''verified'',
           checks = [''Feature flags updated'',
                     ''Database rollback percentage matches expected'',
                     ''CDN cache cleared'',
                     ''Monitoring alerts configured'']\<rparr>, 0))"

text \<open>Sample inputs: a store with the one feature at 25 percent and no history.\<close>

definition config25 :: rollout_configuration where
  "config25 =
     \<lparr>config_id = 1, feature_name = feature, rollout_percentage = 25,
      rollout_strategy = ''percentage'', emergency_stop = False, is_active = True, updated_at = 0\<rparr>"

definition store25 :: store where
  "store25 =
     \<lparr>rollout_configuration_table = [feature \<mapsto> config25],
      rollout_history_table = []\<rparr>"

definition env_ok :: run_env where
  "env_ok = \<lparr>credentials = True, now = 7, fetch_error = False, update_error = False, insert_error = False\<rparr>"

text \<open>The same surroundings with a store that rejects the history insert.\<close>

definition env_insert_fails :: run_env where
  "env_insert_fails = env_ok\<lparr>insert_error := True\<rparr>"

text \<open>The store after the operator has run \<^verbatim>\<open>stop\<close> on it.\<close>

definition store_stopped :: store where
  "store_stopped = snd (emergencyStop env_ok feature store25)"

section \<open>Router classifier (HybridQueueManager.isRecentDataJob)\<close>

text \<open>
  \<^verbatim>\<open>JobData\<close>. An optional field is an option; \<^verbatim>\<open>prNumbers\<close> that is present may
  be the empty array, which is what the capture scripts build from an empty
  \<^verbatim>\<open>PR_NUMBERS\<close>.
\<close>

datatype triggerSource = manual | scheduled

record JobData =
  repositoryId :: string
  repositoryName :: string
  prNumbers :: "int list option"
  timeRange :: "int option"
  maxItems :: "int option"
  triggerSource :: triggerSource

text \<open>
  JavaScript truthiness of the two guards: \<^verbatim>\<open>data.timeRange && ...\<close> is false for an
  absent field and for the number 0; \<^verbatim>\<open>data.prNumbers && ...\<close> is false for an absent
  field only, since every array, the empty one too, is truthy.
\<close>

definition isRecentDataJob :: "JobData \<Rightarrow> int \<Rightarrow> bool" where
  "isRecentDataJob d cutoffHours =
     (if (case timeRange d of None \<Rightarrow> False | Some t \<Rightarrow> t \<noteq> 0 \<and> t \<le> 1) then True
      else if (case prNumbers d of None \<Rightarrow> False | Some ns \<Rightarrow> length ns \<le> 10) then True
      else if triggerSource d = manual then True
      else False)"

datatype processor = inngest | github_actions

definition queueJob_processor :: "JobData \<Rightarrow> processor" where
  "queueJob_processor d = (if isRecentDataJob d 24 then inngest else github_actions)"

text \<open>
  Sample input: a scheduled 180-day job whose \<^verbatim>\<open>prNumbers\<close> is the empty array, which
  the capture scripts read as "all recent PRs".
\<close>

definition job_all_recent_prs :: JobData where
  "job_all_recent_prs =
     \<lparr>repositoryId = ''r1'', repositoryName = ''owner/repo'', prNumbers = Some [],
      timeRange = Some 180, maxItems = Some 1000, triggerSource = scheduled\<rparr>"

section \<open>Rate-limit governor (RateLimitMonitor)\<close>

text \<open>
  A history entry is the tracked \<^verbatim>\<open>rateLimit\<close> object with three more fields. Costs and
  budgets are integers, as the forge reports them; means and quotients are rationals.
\<close>

record entry = rateLimit +
  timestamp :: nat
  queryType :: string
  itemsProcessed :: int

datatype alert_level = critical | warning | info

record alert =
  level :: alert_level
  alert_timestamp :: nat

record thresholds =
  warning_threshold :: int
  critical_threshold :: int
  efficiency_threshold :: rat

record RateLimitMonitor =
  history :: "entry list"
  alerts :: "alert list"
  thresholds :: thresholds

definition new_RateLimitMonitor :: RateLimitMonitor where
  "new_RateLimitMonitor =
     \<lparr>history = [], alerts = [],
      thresholds = \<lparr>warning_threshold = 1000, critical_threshold = 100, efficiency_threshold = 5\<rparr>\<rparr>"

text \<open>
  A JavaScript division does not fail on a zero divisor: it gives an infinity, or
  \<^verbatim>\<open>NaN\<close> for 0/0. \<^verbatim>\<open>Math.floor\<close> and the comparison \<^verbatim>\<open>>\<close> pass these through.
\<close>

datatype js_number = Finite rat | PosInfinity | NegInfinity | NaN

definition js_div :: "rat \<Rightarrow> rat \<Rightarrow> js_number" where
  "js_div a b =
     (if b \<noteq> 0 then Finite (a / b)
      else if a > 0 then PosInfinity
      else if a < 0 then NegInfinity
      else NaN)"

fun js_floor :: "js_number \<Rightarrow> js_number" where
  "js_floor (Finite x) = Finite (of_int \<lfloor>x\<rfloor>)"
| "js_floor x = x"

fun js_greater :: "js_number \<Rightarrow> rat \<Rightarrow> bool" where
  "js_greater (Finite x) y = (x > y)"
| "js_greater PosInfinity y = True"
| "js_greater x y = False"

text \<open>
  \<^verbatim>\<open>x.toFixed(d)\<close> spells \<open>n / 10^d\<close> for the integer \<open>n\<close> nearest to \<open>x * 10^d\<close>, a
  tie going away from zero. The string is represented by the number it spells.
\<close>

definition toFixed :: "nat \<Rightarrow> rat \<Rightarrow> rat" where
  "toFixed d x =
     (if x \<ge> 0 then of_int \<lfloor>x * 10 ^ d + 1 / 2\<rfloor> / 10 ^ d
      else - (of_int \<lfloor>- x * 10 ^ d + 1 / 2\<rfloor> / 10 ^ d))"

text \<open>\<^verbatim>\<open>xs.slice(-n)\<close>: the last \<open>n\<close> elements, all of them when there are fewer.\<close>

definition slice_last :: "nat \<Rightarrow> 'a list \<Rightarrow> 'a list" where
  "slice_last n xs = drop (length xs - n) xs"

definition addAlert :: "nat \<Rightarrow> alert_level \<Rightarrow> RateLimitMonitor \<Rightarrow> RateLimitMonitor" where
  "addAlert t lv m =
     (let as = alerts m @ [\<lparr>level = lv, alert_timestamp = t\<rparr>]
      in m\<lparr>alerts := (if length as > 50 then slice_last 50 as else as)\<rparr>)"

definition checkThresholds :: "nat \<Rightarrow> entry \<Rightarrow> RateLimitMonitor \<Rightarrow> RateLimitMonitor" where
  "checkThresholds t e m =
     (let m1 = (if remaining e < critical_threshold (thresholds m) then addAlert t critical m
                else if remaining e < warning_threshold (thresholds m) then addAlert t warning m
                else m);
          efficiency = js_div (of_int (cost e)) (of_int (itemsProcessed e))
      in if js_greater efficiency (efficiency_threshold (thresholds m1)) then addAlert t info m1 else m1)"

text \<open>Twenty-four hours in the unit of the time stamps, milliseconds.\<close>

definition day_ms :: nat where
  "day_ms = 86400000"

definition cleanOldEntries :: "nat \<Rightarrow> RateLimitMonitor \<Rightarrow> RateLimitMonitor" where
  "cleanOldEntries t m =
     m\<lparr>history := filter (\<lambda>e. int (timestamp e) > int t - int day_ms) (history m)\<rparr>"

definition track :: "nat \<Rightarrow> rateLimit \<Rightarrow> string \<Rightarrow> int \<Rightarrow> RateLimitMonitor \<Rightarrow> entry \<times> RateLimitMonitor" where
  "track t rl qt items m =
     (let e = \<lparr>cost = cost rl, remaining = remaining rl, limit = limit rl,
                timestamp = t, queryType = qt, itemsProcessed = items\<rparr>;
          m1 = m\<lparr>history := history m @ [e]\<rparr>;
          m2 = checkThresholds t e m1;
          m3 = cleanOldEntries t m2
      in (e, m3))"

record stats =
  totalQueries :: nat
  recentQueries :: nat
  stats_averageCost :: rat
  averageEfficiency :: rat
  stats_currentRemaining :: int
  currentLimit :: int
  stats_alerts :: nat
  lastUpdate :: nat

definition getStats :: "RateLimitMonitor \<Rightarrow> stats option" where
  "getStats m =
     (if length (history m) = 0 then None
      else
        let recent = slice_last 10 (history m);
            totalCost = foldl (\<lambda>sum e. sum + cost e) 0 recent;
            totalItems = foldl (\<lambda>sum e. sum + itemsProcessed e) 0 recent;
            newest = last (history m)
        in Some \<lparr>totalQueries = length (history m),
                  recentQueries = length recent,
                  stats_averageCost = of_int totalCost / of_nat (length recent),
                  averageEfficiency =
                    (if totalItems > 0 then of_int totalCost / of_int totalItems else 0),
                  stats_currentRemaining = (if remaining newest = 0 then 0 else remaining newest),
                  currentLimit = (if limit newest = 0 then 5000 else limit newest),
                  stats_alerts = length (alerts m),
                  lastUpdate = timestamp newest\<rparr>)"

record prediction =
  queriesRemaining :: int
  averageCost :: rat
  predictedCost :: rat
  currentRemaining :: int
  willExceedLimit :: bool
  safeQueries :: js_number

definition predict :: "RateLimitMonitor \<Rightarrow> int \<Rightarrow> prediction option" where
  "predict m q =
     (if length (history m) = 0 then None
      else
        let recent = slice_last 10 (history m);
            avg = of_int (foldl (\<lambda>sum e. sum + cost e) 0 recent) / of_nat (length recent);
            cur = (let r = remaining (last (history m)) in if r = 0 then 0 else r);
            predicted = of_int q * avg;
            willExceed = (predicted > of_int cur)
        in Some \<lparr>queriesRemaining = q,
                  averageCost = toFixed 2 avg,
                  predictedCost = toFixed 0 predicted,
                  currentRemaining = cur,
                  willExceedLimit = willExceed,
                  safeQueries = js_floor (js_div (of_int cur) avg)\<rparr>)"



text \<open>Sample input: three tracked samples of cost 1, 1 and 2.\<close>

definition sample_entry :: "int \<Rightarrow> int \<Rightarrow> entry" where
  "sample_entry c r =
     \<lparr>cost = c, remaining = r, limit = 5000, timestamp = 0, queryType = ''pr'', itemsProcessed = 1\<rparr>"

definition monitor3 :: RateLimitMonitor where
  "monitor3 = new_RateLimitMonitor\<lparr>history := [sample_entry 1 4990, sample_entry 1 4989, sample_entry 2 4987]\<rparr>"

section \<open>Job rows (scripts/progressive-capture/lib/progress-tracker.js)\<close>

datatype job_status = pending | processing | completed | failed

record job_row =
  job_status :: job_status
  job_error :: "string option"
  created_at :: nat
  started_at :: "nat option"
  completed_at :: "nat option"
  job_updated_at :: nat

record error_record =
  itemId :: "string option"
  error_message :: string
  error_timestamp :: nat

record progress_row =
  total_items :: nat
  processed_items :: nat
  failed_items :: nat
  current_item :: string
  progress_errors :: "error_record list"
  progress_updated_at :: nat

record capture_store =
  progressive_capture_jobs :: "string \<rightharpoonup> job_row"
  progressive_capture_progress :: "nat \<rightharpoonup> progress_row"

record ProgressTracker =
  jobId :: string
  progressId :: "nat option"
  totalItems :: nat
  processedItems :: nat
  failedItems :: nat
  errors :: "error_record list"

text \<open>
  An \<^verbatim>\<open>update(...).eq('id', k)\<close> changes the row with that key, if there is one. A
  store call that fails changes nothing, and the tracker goes on either way: a returned
  error is not looked at, a thrown one is caught and logged. \<open>ok\<close> says whether the
  store accepts the call; \<^verbatim>\<open>complete\<close> and \<^verbatim>\<open>fail\<close> make two calls, with one flag
  each.
\<close>

definition update_job :: "bool \<Rightarrow> string \<Rightarrow> (job_row \<Rightarrow> job_row) \<Rightarrow> capture_store \<Rightarrow> capture_store" where
  "update_job ok k f s =
     (if \<not> ok then s
      else case progressive_capture_jobs s k of
        None \<Rightarrow> s
      | Some row \<Rightarrow> s\<lparr>progressive_capture_jobs := (progressive_capture_jobs s)(k \<mapsto> f row)\<rparr>)"

definition update_progress ::
  "bool \<Rightarrow> nat \<Rightarrow> (progress_row \<Rightarrow> progress_row) \<Rightarrow> capture_store \<Rightarrow> capture_store" where
  "update_progress ok k f s =
     (if \<not> ok then s
      else case progressive_capture_progress s k of
        None \<Rightarrow> s
      | Some row \<Rightarrow> s\<lparr>progressive_capture_progress := (progressive_capture_progress s)(k \<mapsto> f row)\<rparr>)"

text \<open>
  \<^verbatim>\<open>updateJobStatus(status, error = null)\<close>. The \<^verbatim>\<open>updateData\<close> object always has
  \<^verbatim>\<open>status\<close> and \<^verbatim>\<open>updated_at\<close>; \<^verbatim>\<open>completed_at\<close> is added for
  \<^verbatim>\<open>'completed'\<close> only, \<^verbatim>\<open>error\<close> for \<^verbatim>\<open>'failed'\<close> with a truthy (present and
  non-empty) message only. Columns that are not in \<^verbatim>\<open>updateData\<close> keep their value.
\<close>

definition updateJobStatus ::
  "bool \<Rightarrow> nat \<Rightarrow> ProgressTracker \<Rightarrow> job_status \<Rightarrow> string option \<Rightarrow> capture_store \<Rightarrow> capture_store" where
  "updateJobStatus ok t tr st err s =
     update_job ok (jobId tr)
       (\<lambda>row.
          let row1 = row\<lparr>job_status := st, job_updated_at := t\<rparr>
          in if st = completed then row1\<lparr>completed_at := Some t\<rparr>
             else if st = failed \<and> err \<noteq> None \<and> err \<noteq> Some [] then row1\<lparr>job_error := err\<rparr>
             else row1) s"

definition complete :: "bool \<Rightarrow> bool \<Rightarrow> nat \<Rightarrow> ProgressTracker \<Rightarrow> capture_store \<Rightarrow> capture_store" where
  "complete ok_progress ok t tr s =
     (let s1 = (case progressId tr of
                  None \<Rightarrow> s
                | Some pid \<Rightarrow>
                    update_progress ok_progress pid
                      (\<lambda>row. row\<lparr>processed_items := processedItems tr,
                                  failed_items := failedItems tr,
                                  current_item := ''Completed'',
                                  progress_updated_at := t\<rparr>) s)
      in updateJobStatus ok t tr completed None s1)"

definition fail :: "bool \<Rightarrow> bool \<Rightarrow> nat \<Rightarrow> ProgressTracker \<Rightarrow> string \<Rightarrow> capture_store \<Rightarrow> capture_store" where
  "fail ok_progress ok t tr msg s =
     (let s1 = (case progressId tr of
                  None \<Rightarrow> s
                | Some pid \<Rightarrow>
                    update_progress ok_progress pid
                      (\<lambda>row. row\<lparr>current_item := ''Failed'',
                                  progress_errors := errors tr @
                                    [\<lparr>itemId = None, error_message = msg, error_timestamp = t\<rparr>],
                                  progress_updated_at := t\<rparr>) s)
      in updateJobStatus ok t tr failed (Some msg) s1)"

text \<open>The invariant on the completed time stamp as the specification words it.\<close>

definition completed_iff_terminal :: "job_row \<Rightarrow> bool" where
  "completed_iff_terminal row =
     ((completed_at row \<noteq> None) = (job_status row = completed \<or> job_status row = failed))"

text \<open>Sample input: a job that a back-end has started, and its tracker.\<close>

definition job_running :: job_row where
  "job_running =
     \<lparr>job_status = processing, job_error = None, created_at = 1, started_at = Some 2,
      completed_at = None, job_updated_at = 2\<rparr>"

definition capture_store1 :: capture_store where
  "capture_store1 =
     \<lparr>progressive_capture_jobs = [''job-1'' \<mapsto> job_running],
      progressive_capture_progress = Map.empty\<rparr>"

definition tracker1 :: ProgressTracker where
  "tracker1 =
     \<lparr>jobId = ''job-1'', progressId = None, totalItems = 0, processedItems = 0,
      failedItems = 0, errors = []\<rparr>"

section \<open>Properties of the forge client\<close>



text \<open>
  C1, as stated: with the compound path enabled, a compound query that fails with
  \<open>NotFound\<close> makes the operation return \<open>NotFound\<close> without running the fine-grained
  path and without counting a fallback. The code does not do that: on a forge that
  answers the fine-grained calls, \<^verbatim>\<open>getPRCompleteData\<close> returns a record, has counted one
  fallback and five fine-grained queries.
\<close>

theorem getPRCompleteData_NotFound_falls_back:
  "fst (getPRCompleteData tf_payload new_HybridGitHubClient (Inl NotFound) rest_all_ok) \<noteq> Inl NotFound
   \<and> fallbacks (metrics (snd (getPRCompleteData tf_payload new_HybridGitHubClient (Inl NotFound) rest_all_ok))) = 1
   \<and> restQueries (metrics (snd (getPRCompleteData tf_payload new_HybridGitHubClient (Inl NotFound) rest_all_ok))) = 5"
  by (simp add: getPRCompleteData_def getPRCompleteDataREST_def new_HybridGitHubClient_def
      rest_all_ok_def Let_def)

text \<open>
  C1, amended: with the compound path enabled, every failure \<open>e\<close> of the compound query,
  \<open>NotFound\<close> included, makes each of the four operations warn, count one fallback and
  return whatever its fine-grained path returns from that state.
\<close>

theorem compound_failure_falls_back:
  assumes "useGraphQL c"
  shows "getPRCompleteData tf1 c (Inl e) rs =
           getPRCompleteDataREST (fallen_back ''GraphQL failed, falling back to REST'' c) rs
       \<and> getPRReviews tf2 c (Inl e) rs =
           getPRReviewsREST (fallen_back ''GraphQL reviews failed, falling back to REST'' c) rs
       \<and> getPRComments tf3 c (Inl e) rs =
           getPRCommentsREST (fallen_back ''GraphQL comments failed, falling back to REST'' c) rs
       \<and> getRecentPRs tf4 c (Inl e) rs =
           getRecentPRsREST (fallen_back ''GraphQL recent PRs failed, falling back to REST'' c) rs"
  using assms
  by (simp add: getPRCompleteData_def getPRReviews_def getPRComments_def getRecentPRs_def
      fallen_back_def Let_def)

theorem compound_failure_falls_back_witness:
  "useGraphQL new_HybridGitHubClient
   \<and> getPRCompleteData tf_payload new_HybridGitHubClient (Inl NotFound) rest_all_ok =
       getPRCompleteDataREST
         (fallen_back ''GraphQL failed, falling back to REST'' new_HybridGitHubClient) rest_all_ok
   \<and> getPRReviews Suc new_HybridGitHubClient (Inl NotFound) rest_all_ok =
       getPRReviewsREST
         (fallen_back ''GraphQL reviews failed, falling back to REST'' new_HybridGitHubClient) rest_all_ok
   \<and> getPRComments (\<lambda>j. (j, j)) new_HybridGitHubClient (Inl NotFound) rest_all_ok =
       getPRCommentsREST
         (fallen_back ''GraphQL comments failed, falling back to REST'' new_HybridGitHubClient) rest_all_ok
   \<and> getRecentPRs Suc new_HybridGitHubClient (Inl NotFound) rest_all_ok =
       getRecentPRsREST
         (fallen_back ''GraphQL recent PRs failed, falling back to REST'' new_HybridGitHubClient) rest_all_ok"
proof -
  have h: "useGraphQL new_HybridGitHubClient"
    by (simp add: new_HybridGitHubClient_def)
  show ?thesis
    using h compound_failure_falls_back [OF h, where ?tf1.0 = tf_payload and ?tf2.0 = Suc
        and ?tf3.0 = "\<lambda>j. (j, j)" and ?tf4.0 = Suc and e = NotFound and rs = rest_all_ok]
    by simp
qed



section \<open>Properties of the rollout controller\<close>

lemma setRolloutPercentage_emergency_stop:
  "rollout_configuration_table s feature = Some config \<Longrightarrow> emergency_stop config \<Longrightarrow>
   setRolloutPercentage env percentage rsn s = (1, s)"
  by (simp add: setRolloutPercentage_def select_active_single_def split: option.splits)

lemma setRolloutPercentage_out_of_range:
  "p < 0 \<or> p > 100 \<Longrightarrow> setRolloutPercentage env (Some p) rsn s = (1, s)"
  by (simp add: setRolloutPercentage_def)

lemma updateRolloutPercentage_out_of_range:
  "p < 0 \<or> p > 100 \<Longrightarrow> updateRolloutPercentage env f p s = (None, s)"
  by (simp add: updateRolloutPercentage_def)

lemma updateRolloutPercentage_writes_no_history:
  "rollout_history_table (snd (updateRolloutPercentage env f p s)) = rollout_history_table s"
  by (simp add: updateRolloutPercentage_def Let_def split: option.splits)

lemma verify_rollback_independent_of_store:
  "verify_rollback env x s = verify_rollback env x s'"
  by (simp add: verify_rollback_def)

text \<open>
  C2, as stated: the update of the configuration row and the append to the history are
  atomic, so no run leaves the new percentage in the row without a matching history
  entry. The script makes two store calls and only warns when the second one fails: with
  a store that rejects the insert, the run exits with code 0, the row holds 50 and the
  history is empty.
\<close>

theorem setRolloutPercentage_update_without_history:
  "fst (setRolloutPercentage env_insert_fails (Some 50) ''ramp'' store25) = 0
   \<and> map_option rollout_percentage
       (rollout_configuration_table
          (snd (setRolloutPercentage env_insert_fails (Some 50) ''ramp'' store25)) feature) = Some 50
   \<and> rollout_history_table (snd (setRolloutPercentage env_insert_fails (Some 50) ''ramp'' store25)) = []"
  by (simp add: setRolloutPercentage_def env_insert_fails_def env_ok_def store25_def config25_def
      select_active_single_def Let_def)

text \<open>
  C2, amended: a run of the script either exits with code 1 and leaves the store as it
  was, or exits with code 0 having written the new percentage into the row; in the second
  case the history has grown by the one matching entry when the store accepted the insert,
  and is unchanged when the store rejected it.
\<close>

theorem setRolloutPercentage_outcomes:
  "setRolloutPercentage env percentage rsn s = (code, s') \<Longrightarrow>
   (code = 1 \<and> s' = s) \<or>
   (code = 0 \<and> (\<exists>config p. percentage = Some p \<and> select_active_single s feature = Some config \<and>
       rollout_configuration_table s' =
         (rollout_configuration_table s)(feature \<mapsto>
            config\<lparr>rollout_percentage := p, updated_at := now env\<rparr>) \<and>
       rollout_history_table s' = rollout_history_table s @
         (if insert_error env then []
          else [updated_entry env config (rollout_percentage config) p rsn])))"
  by (auto simp: setRolloutPercentage_def Let_def split: if_splits option.splits)

theorem setRolloutPercentage_outcomes_witness:
  "setRolloutPercentage env_ok (Some 50) ''ramp'' store25 =
     (0, \<lparr>rollout_configuration_table = [feature \<mapsto> config25\<lparr>rollout_percentage := 50, updated_at := 7\<rparr>],
          rollout_history_table = [updated_entry env_ok config25 25 50 ''ramp'']\<rparr>)
   \<and> rollout_history_table
        \<lparr>rollout_configuration_table = [feature \<mapsto> config25\<lparr>rollout_percentage := 50, updated_at := 7\<rparr>],
         rollout_history_table = [updated_entry env_ok config25 25 50 ''ramp'']\<rparr> \<noteq> []"
proof -
  have run: "setRolloutPercentage env_ok (Some 50) ''ramp'' store25 =
     (0, \<lparr>rollout_configuration_table = [feature \<mapsto> config25\<lparr>rollout_percentage := 50, updated_at := 7\<rparr>],
          rollout_history_table = [updated_entry env_ok config25 25 50 ''ramp'']\<rparr>)"
    by (simp add: setRolloutPercentage_def env_ok_def store25_def config25_def
        select_active_single_def Let_def)
  from setRolloutPercentage_outcomes [OF run] run show ?thesis
    by (auto simp: env_ok_def store25_def)
qed

text \<open>
  C3, as stated: every successful update of the percentage appends an audit entry. A run
  of the script that the store answers with an error on the insert still reports success
  (exit code 0), has moved the percentage from 25 to 100, and has appended nothing.
\<close>

theorem setRolloutPercentage_success_without_audit:
  "setRolloutPercentage env_insert_fails (Some 100) ''full rollout'' store25 =
     (0, store25\<lparr>rollout_configuration_table :=
                    [feature \<mapsto> config25\<lparr>rollout_percentage := 100, updated_at := 7\<rparr>]\<rparr>)
   \<and> rollout_history_table
       (store25\<lparr>rollout_configuration_table :=
                   [feature \<mapsto> config25\<lparr>rollout_percentage := 100, updated_at := 7\<rparr>]\<rparr>) =
     rollout_history_table store25"
  by (simp add: setRolloutPercentage_def env_insert_fails_def env_ok_def store25_def config25_def
      select_active_single_def Let_def)

text \<open>
  C3, amended: for every run of \<^verbatim>\<open>set-rollout-percentage.js\<close> that exits with code 0
  and whose history insert the store accepts, exactly one entry is appended; its action is
  \<open>updated\<close>, its \<open>previous_percentage\<close> is the percentage stored before the run and its
  \<open>new_percentage\<close> the percentage stored after it.
\<close>

theorem setRolloutPercentage_audit_entry:
  assumes "setRolloutPercentage env percentage rsn s = (0, s')" and "\<not> insert_error env"
  shows "\<exists>e. rollout_history_table s' = rollout_history_table s @ [e] \<and> action e = ''updated'' \<and>
     Some (previous_percentage e) = map_option rollout_percentage (rollout_configuration_table s feature) \<and>
     Some (new_percentage e) = map_option rollout_percentage (rollout_configuration_table s' feature)"
  using assms
  by (auto simp: setRolloutPercentage_def Let_def updated_entry_def select_active_single_def
      split: if_splits option.splits)

theorem setRolloutPercentage_audit_entry_witness:
  "setRolloutPercentage env_ok (Some 75) ''ramp'' store25 =
     (0, \<lparr>rollout_configuration_table = [feature \<mapsto> config25\<lparr>rollout_percentage := 75, updated_at := 7\<rparr>],
          rollout_history_table = [updated_entry env_ok config25 25 75 ''ramp'']\<rparr>)
   \<and> \<not> insert_error env_ok
   \<and> (\<exists>e. [updated_entry env_ok config25 25 75 ''ramp''] = rollout_history_table store25 @ [e] \<and>
          previous_percentage e = 25 \<and> new_percentage e = 75)"
proof -
  have run: "setRolloutPercentage env_ok (Some 75) ''ramp'' store25 =
     (0, \<lparr>rollout_configuration_table = [feature \<mapsto> config25\<lparr>rollout_percentage := 75, updated_at := 7\<rparr>],
          rollout_history_table = [updated_entry env_ok config25 25 75 ''ramp'']\<rparr>)"
    by (simp add: setRolloutPercentage_def env_ok_def store25_def config25_def
        select_active_single_def Let_def)
  have ins: "\<not> insert_error env_ok"
    by (simp add: env_ok_def)
  from setRolloutPercentage_audit_entry [OF run ins] run ins show ?thesis
    by (auto simp: store25_def config25_def)
qed

text \<open>
  C4: an update under emergency stop must fail and leave the configuration as it is. The
  script refuses such an update; the operator CLI's \<^verbatim>\<open>updateRolloutPercentage\<close> has no
  such check. After \<^verbatim>\<open>stop\<close> on the store at 25 percent, \<^verbatim>\<open>update 75\<close> returns the
  row and the stored percentage is 75.
\<close>

theorem updateRolloutPercentage_ignores_emergency_stop:
  "map_option emergency_stop (rollout_configuration_table store_stopped feature) = Some True
   \<and> map_option rollout_percentage (rollout_configuration_table store_stopped feature) = Some 25
   \<and> fst (updateRolloutPercentage env_ok feature 75 store_stopped) \<noteq> None
   \<and> map_option rollout_percentage
       (rollout_configuration_table
          (snd (updateRolloutPercentage env_ok feature 75 store_stopped)) feature) = Some 75"
  by (simp add: store_stopped_def emergencyStop_def updateRolloutPercentage_def env_ok_def
      store25_def config25_def Let_def)

text \<open>
  C5: the verification step must read the configuration back. The script has no store
  call: with 25 percent in effect and an expected percentage of 0 it reports
  \<open>verified\<close> with an actual percentage of 0, and exits with code 0.
\<close>

theorem verify_rollback_reports_verified_unread:
  "getCurrentRolloutPercentage env_ok store25 = 25
   \<and> status (fst (verify_rollback env_ok (Some ''0'') store25)) = ''verified''
   \<and> actualPercentage (fst (verify_rollback env_ok (Some ''0'') store25)) = ''0''
   \<and> snd (verify_rollback env_ok (Some ''0'') store25) = 0"
  by (simp add: getCurrentRolloutPercentage_def verify_rollback_def env_ok_def store25_def
      config25_def select_active_single_def Let_def)

section \<open>Properties of the classifier\<close>

lemma isRecentDataJob_iff:
  "isRecentDataJob d h \<longleftrightarrow>
     (\<exists>t. timeRange d = Some t \<and> t \<noteq> 0 \<and> t \<le> 1)
     \<or> (\<exists>ns. prNumbers d = Some ns \<and> length ns \<le> 10)
     \<or> triggerSource d = manual"
  by (auto simp: isRecentDataJob_def split: option.splits)

text \<open>
  C6: a request with an empty \<open>prNumbers\<close> list, a time range above one day and a
  scheduled trigger must be classified as batch. The classifier returns \<open>True\<close> for it,
  and \<^verbatim>\<open>queueJob\<close> sends the 180-day scheduled job to the low-latency back-end: the JavaScript
  guard \<^verbatim>\<open>data.prNumbers && data.prNumbers.length <= 10\<close> holds for the empty array.
\<close>

theorem isRecentDataJob_empty_prNumbers:
  "prNumbers job_all_recent_prs = Some []
   \<and> timeRange job_all_recent_prs = Some 180
   \<and> triggerSource job_all_recent_prs = scheduled
   \<and> isRecentDataJob job_all_recent_prs 24
   \<and> queueJob_processor job_all_recent_prs = inngest"
  by (simp add: isRecentDataJob_def queueJob_processor_def job_all_recent_prs_def)

section \<open>Properties of the governor\<close>











lemma addAlert_history: "history (addAlert t lv m) = history m"
  by (simp add: addAlert_def Let_def)

lemma checkThresholds_history: "history (checkThresholds t e m) = history m"
  by (simp add: checkThresholds_def Let_def addAlert_history)

lemma track_keeps_sample:
  "fst (track t rl qt items m) \<in> set (history (snd (track t rl qt items m)))"
  by (simp add: track_def Let_def cleanOldEntries_def checkThresholds_history day_ms_def)

text \<open>
  C9: in a governor state without samples, \<open>predict q\<close> is \<^verbatim>\<open>null\<close> for every \<open>q\<close> and
  \<open>getStats\<close> is \<^verbatim>\<open>null\<close>; in particular for the freshly constructed governor.
\<close>

theorem no_samples_no_report:
  "predict (m\<lparr>history := []\<rparr>) q = None \<and> getStats (m\<lparr>history := []\<rparr>) = None
   \<and> predict new_RateLimitMonitor q = None \<and> getStats new_RateLimitMonitor = None"
  by (simp add: predict_def getStats_def new_RateLimitMonitor_def)

theorem no_samples_no_report_witness:
  "predict (monitor3\<lparr>history := []\<rparr>) 100 = None \<and> getStats (monitor3\<lparr>history := []\<rparr>) = None
   \<and> predict new_RateLimitMonitor 100 = None \<and> getStats new_RateLimitMonitor = None"
  using no_samples_no_report [of monitor3 100] .

section \<open>Properties of the job rows\<close>

text \<open>
  C8, as stated: a job row has a completed time stamp iff its status is completed or
  failed, and a started time stamp iff its status is at least processing. After
  \<^verbatim>\<open>fail\<close> on a running job the status is failed and \<open>completed_at\<close> is still null.
\<close>

theorem fail_leaves_completed_at_null:
  "map_option job_status
     (progressive_capture_jobs (fail True True 9 tracker1 ''boom'' capture_store1) ''job-1'') = Some failed
   \<and> map_option completed_at
       (progressive_capture_jobs (fail True True 9 tracker1 ''boom'' capture_store1) ''job-1'') = Some None
   \<and> map_option completed_iff_terminal
       (progressive_capture_jobs (fail True True 9 tracker1 ''boom'' capture_store1) ''job-1'') = Some False"
  by (simp add: fail_def updateJobStatus_def update_job_def tracker1_def capture_store1_def
      job_running_def completed_iff_terminal_def Let_def)

text \<open>
  C8, amended: when the store applies \<^verbatim>\<open>updateJobStatus(status)\<close> to the tracker's job
  row, the row gets that status; \<open>completed_at\<close> is set to the time of the call if the
  status is completed and keeps its value otherwise, so a job that goes to failed keeps
  the (null) \<open>completed_at\<close> it had; \<open>started_at\<close> is not written.
\<close>

theorem updateJobStatus_row:
  assumes "progressive_capture_jobs s (jobId tr) = Some row"
  shows "\<exists>row'. progressive_capture_jobs (updateJobStatus True t tr st err s) (jobId tr) = Some row' \<and>
      job_status row' = st \<and>
      completed_at row' = (if st = completed then Some t else completed_at row) \<and>
      started_at row' = started_at row"
  using assms by (simp add: updateJobStatus_def update_job_def Let_def)

theorem updateJobStatus_row_witness:
  "progressive_capture_jobs capture_store1 (jobId tracker1) = Some job_running
   \<and> (\<exists>row'. progressive_capture_jobs
               (updateJobStatus True 9 tracker1 failed (Some ''boom'') capture_store1) (jobId tracker1) = Some row' \<and>
        job_status row' = failed \<and> completed_at row' = None \<and> started_at row' = Some 2)"
proof -
  have h: "progressive_capture_jobs capture_store1 (jobId tracker1) = Some job_running"
    by (simp add: capture_store1_def tracker1_def)
  from updateJobStatus_row [OF h, of 9 failed "Some ''boom''"] h show ?thesis
    by (simp add: job_running_def)
qed

end
